theory Spec2Isabelle
  imports Main "HOL-Library.AList"
begin

section \<open>Boundary loading utilities (notebooks/conflict/boundaries\_utils.py)\<close>

text \<open>
  The module has two leaf functions over the pycountry database and one loop that loads
  cached GeoJSON files into a dictionary. The database, the file system and the GeoJSON
  reader are libraries; they are the fields of an environment record. A call of a
  library function returns a value or raises, and the model keeps both outcomes, so that
  every \<^verbatim>\<open>try\<close>/\<^verbatim>\<open>except\<close> of the source is a branch of the model and a
  call outside a \<^verbatim>\<open>try\<close> propagates what it raises.

  A Python string is modelled by the bytes of its UTF-8 encoding (\<^typ>\<open>string\<close>;
  ASCII text is its own encoding). Concatenation, comparison, emptiness and splitting at
  a slash are the same on the encoding as on the string. \<^verbatim>\<open>str.strip\<close> and
  \<^verbatim>\<open>str.upper\<close>, which follow the Unicode tables of the interpreter, are taken
  from the environment.
\<close>

subsection \<open>Python values and string methods\<close>

text \<open>\<^verbatim>\<open>str(n)\<close> for an integer: decimal digits, a minus sign for a negative number.\<close>

definition digit :: "nat \<Rightarrow> char" where
  "digit n = ''0123456789'' ! n"

fun str_nat :: "nat \<Rightarrow> string" where
  "str_nat n = (if n < 10 then [digit n] else str_nat (n div 10) @ [digit (n mod 10)])"

declare str_nat.simps [simp del]

definition str_int :: "int \<Rightarrow> string" where
  "str_int i = (if i < 0 then CHR ''-'' # str_nat (nat (- i)) else str_nat (nat i))"

text \<open>A value between single quotes, as the messages have it: \<^verbatim>\<open>'{x}'\<close>.\<close>

definition quoted :: "string \<Rightarrow> string" where
  "quoted s = CHR 0x27 # s @ [CHR 0x27]"

text \<open>
  What a call raises is an instance of \<^verbatim>\<open>Exception\<close>: a
  \<^verbatim>\<open>LookupError\<close> (or a subclass of it), or any other exception class, such as
  \<^verbatim>\<open>OSError\<close> or \<^verbatim>\<open>ValueError\<close>. The string is \<^verbatim>\<open>str(e)\<close>.
\<close>

datatype exn = LookupError string | OtherException string

fun exn_str :: "exn \<Rightarrow> string" where
  "exn_str (LookupError m) = m"
| "exn_str (OtherException m) = m"

text \<open>
  The values a caller can pass, whatever the annotation says: \<^verbatim>\<open>None\<close>, a
  boolean, an integer, a string, or any other object, which is given by what its
  \<^verbatim>\<open>__str__\<close> does: return a string or raise. \<^verbatim>\<open>str()\<close> of an integer
  raises \<^verbatim>\<open>ValueError\<close> when the integer has more digits than the limit of the
  interpreter (4300 by default).
\<close>

datatype pyval = PyNone | PyBool bool | PyInt int | PyStr string | PyObject "exn + string"

definition int_max_str_digits :: nat where
  "int_max_str_digits = 4300"

fun py_str :: "pyval \<Rightarrow> exn + string" where
  "py_str PyNone = Inr ''None''"
| "py_str (PyBool b) = Inr (if b then ''True'' else ''False'')"
| "py_str (PyInt i) =
     (if int_max_str_digits < length (str_nat (nat \<bar>i\<bar>))
      then Inl (OtherException ''Exceeds the limit (4300 digits) for integer string conversion'')
      else Inr (str_int i))"
| "py_str (PyStr s) = Inr s"
| "py_str (PyObject r) = r"

subsection \<open>Paths (pathlib, POSIX flavour)\<close>

text \<open>
  A path is a root (\<^verbatim>\<open>''\<close>, \<^verbatim>\<open>'/'\<close> or \<^verbatim>\<open>'//'\<close>) and its components.
  \<^verbatim>\<open>Path(s)\<close> splits \<open>s\<close> at the slashes and drops the empty components and the
  dots; \<^verbatim>\<open>p / s\<close> is \<open>s\<close> alone when \<open>s\<close> is absolute and appends the components of
  \<open>s\<close> otherwise; \<^verbatim>\<open>str(p)\<close> joins the components with slashes.
\<close>

record path =
  path_root :: string
  path_parts :: "string list"

fun split_sep :: "char \<Rightarrow> string \<Rightarrow> string list" where
  "split_sep sep [] = [[]]"
| "split_sep sep (c # cs) =
     (if c = sep then [] # split_sep sep cs
      else (case split_sep sep cs of
              [] \<Rightarrow> [[c]]
            | w # ws \<Rightarrow> (c # w) # ws))"

definition splitroot :: "string \<Rightarrow> string \<times> string" where
  "splitroot p =
     (if take 1 p \<noteq> ''/'' then ('''', p)
      else if take 1 (drop 1 p) \<noteq> ''/'' \<or> take 1 (drop 2 p) = ''/'' then (''/'', drop 1 p)
      else (''//'', drop 2 p))"

definition Path :: "string \<Rightarrow> path" where
  "Path s =
     (case splitroot s of
        (r, rel) \<Rightarrow> \<lparr>path_root = r,
                     path_parts = filter (\<lambda>x. x \<noteq> [] \<and> x \<noteq> ''.'') (split_sep CHR ''/'' rel)\<rparr>)"

definition truediv :: "path \<Rightarrow> string \<Rightarrow> path" where
  "truediv p s =
     (let q = Path s
      in if path_root q \<noteq> [] then q
         else \<lparr>path_root = path_root p, path_parts = path_parts p @ path_parts q\<rparr>)"

fun join_sep :: "string \<Rightarrow> string list \<Rightarrow> string" where
  "join_sep sep [] = []"
| "join_sep sep [x] = x"
| "join_sep sep (x # y # ys) = x @ sep @ join_sep sep (y # ys)"

definition path_str :: "path \<Rightarrow> string" where
  "path_str p =
     (if path_root p = [] \<and> path_parts p = [] then ''.''
      else path_root p @ join_sep ''/'' (path_parts p))"

subsection \<open>The libraries: pycountry, the file system, geopandas\<close>

text \<open>The fields of a pycountry country that the module reads.\<close>

record country =
  name :: string
  alpha_2 :: string
  alpha_3 :: string

text \<open>
  What \<^verbatim>\<open>gpd.read_file\<close> returns: a GeoDataFrame, or a plain DataFrame for a file
  without geometry; the rows are the features.
\<close>

datatype frame = GeoDataFrame "string list" | DataFrame "string list"

datatype key = Alpha_2 | Alpha_3

text \<open>
  The environment of a call: \<^verbatim>\<open>str.strip\<close> and \<^verbatim>\<open>str.upper\<close> of the
  interpreter, and the answers of \<^verbatim>\<open>pycountry.countries.get\<close>, of
  \<^verbatim>\<open>pycountry.countries.search_fuzzy\<close>, of \<^verbatim>\<open>Path.exists\<close> and of
  \<^verbatim>\<open>gpd.read_file\<close>. Each of the four library calls returns or raises:
  \<^verbatim>\<open>Path.exists\<close> answers \<^verbatim>\<open>False\<close> for a missing file and raises the
  \<^verbatim>\<open>OSError\<close> of other failures (a directory that may not be searched, a name that
  is too long).
\<close>

record env =
  py_strip :: "string \<Rightarrow> string"
  py_upper :: "string \<Rightarrow> string"
  db_get :: "key \<Rightarrow> string \<Rightarrow> exn + country option"
  db_search_fuzzy :: "string \<Rightarrow> exn + country list"
  fs_exists :: "path \<Rightarrow> exn + bool"
  fs_read_file :: "path \<Rightarrow> exn + frame"

subsection \<open>Effects: the trace of a run, and exceptions\<close>

text \<open>
  A run leaves a trace: the lines written to standard output and, beside them, the calls
  made to the logger, to the database and to the file system, in the order they happen.
\<close>

datatype level = INFO | ERROR

datatype event =
    Stdout string
  | LoggerCall level string
  | CountriesGet key string
  | SearchFuzzy string
  | PathExists path
  | ReadFile path

type_synonym 'a io = "event list \<times> (exn + 'a)"

definition io_return :: "'a \<Rightarrow> 'a io" where
  "io_return x = ([], Inr x)"

definition io_bind :: "'a io \<Rightarrow> ('a \<Rightarrow> 'b io) \<Rightarrow> 'b io" where
  "io_bind m f =
     (case m of
        (tr, Inl e) \<Rightarrow> (tr, Inl e)
      | (tr, Inr x) \<Rightarrow> (case f x of (tr', r) \<Rightarrow> (tr @ tr', r)))"

text \<open>\<^verbatim>\<open>try: m except Exception as e: h(e)\<close>.\<close>

definition io_try :: "'a io \<Rightarrow> (exn \<Rightarrow> 'a io) \<Rightarrow> 'a io" where
  "io_try m h =
     (case m of
        (tr, Inr x) \<Rightarrow> (tr, Inr x)
      | (tr, Inl e) \<Rightarrow> (case h e of (tr', r) \<Rightarrow> (tr @ tr', r)))"

definition print :: "string \<Rightarrow> unit io" where
  "print s = ([Stdout s], Inr ())"

text \<open>\<^verbatim>\<open>SimpleLogger\<close>: both methods print, with the severity in front.\<close>

definition logger_info :: "string \<Rightarrow> unit io" where
  "logger_info message = ([LoggerCall INFO message, Stdout (''INFO: '' @ message)], Inr ())"

definition logger_error :: "string \<Rightarrow> unit io" where
  "logger_error message = ([LoggerCall ERROR message, Stdout (''ERROR: '' @ message)], Inr ())"

definition countries_get :: "env \<Rightarrow> key \<Rightarrow> string \<Rightarrow> country option io" where
  "countries_get env k code = ([CountriesGet k code], db_get env k code)"

definition countries_search_fuzzy :: "env \<Rightarrow> string \<Rightarrow> country list io" where
  "countries_search_fuzzy env query = ([SearchFuzzy query], db_search_fuzzy env query)"

definition exists :: "env \<Rightarrow> path \<Rightarrow> bool io" where
  "exists env p = ([PathExists p], fs_exists env p)"

definition read_file :: "env \<Rightarrow> path \<Rightarrow> frame io" where
  "read_file env p = ([ReadFile p], fs_read_file env p)"

subsection \<open>get\_country\_name\_from\_iso\_code\<close>

text \<open>
  The first statement, \<^verbatim>\<open>str(iso_code).strip().upper()\<close>, stands before the
  \<^verbatim>\<open>try\<close>: what \<^verbatim>\<open>str()\<close> raises leaves the function.
\<close>

definition get_country_name_from_iso_code :: "env \<Rightarrow> pyval \<Rightarrow> string option io" where
  "get_country_name_from_iso_code env v =
     io_bind ([], py_str v) (\<lambda>s.
       let iso_code = py_upper env (py_strip env s)
       in io_try
            (io_bind (countries_get env Alpha_2 iso_code) (\<lambda>country.
               case country of
                 Some c \<Rightarrow> io_return (Some (name c))
               | None \<Rightarrow>
                   io_bind (countries_get env Alpha_3 iso_code) (\<lambda>country.
                     case country of
                       Some c \<Rightarrow> io_return (Some (name c))
                     | None \<Rightarrow> io_return None)))
            (\<lambda>e. io_bind
                   (print (''An error occurred while looking up ISO code '' @ quoted iso_code
                           @ '': '' @ exn_str e))
                   (\<lambda>_. io_return None)))"

subsection \<open>get\_iso\_code\_from\_country\_name\<close>

definition get_iso_code_from_country_name :: "env \<Rightarrow> string \<Rightarrow> string option io" where
  "get_iso_code_from_country_name env country_name =
     io_try
       (io_bind (countries_search_fuzzy env country_name) (\<lambda>country.
          case country of
            c # _ \<Rightarrow> io_return (Some (alpha_3 c))
          | [] \<Rightarrow> io_return None))
       (\<lambda>e. case e of
               LookupError _ \<Rightarrow> io_return None
             | OtherException _ \<Rightarrow>
                 io_bind
                   (logger_error (''An error occurred while looking up ISO code for ''
                                  @ quoted country_name @ '': '' @ exn_str e))
                   (\<lambda>_. io_return None))"

subsection \<open>load\_country\_boundaries\_to\_dict\<close>

text \<open>
  The dictionary is a list of pairs in insertion order; \<^verbatim>\<open>d[k] = v\<close> is
  \<^const>\<open>AList.update\<close>: a key already there keeps its place and takes the new value,
  a new key goes to the end.
\<close>

type_synonym catalog = "(string \<times> frame) list"

definition cache_file_path :: "path \<Rightarrow> string \<Rightarrow> int \<Rightarrow> string \<Rightarrow> path" where
  "cache_file_path output_base_folder iso_code target_adm_level release_type =
     truediv output_base_folder
       (iso_code @ ''_ADM'' @ str_int target_adm_level @ ''_'' @ release_type @ ''.geojson'')"

text \<open>
  The truth value of \<^verbatim>\<open>iso_code\<close> in \<^verbatim>\<open>if iso_code:\<close>: \<^verbatim>\<open>None\<close> and the
  empty string are false.
\<close>

fun truthy :: "string option \<Rightarrow> bool" where
  "truthy None = False"
| "truthy (Some s) = (s \<noteq> [])"

text \<open>
  One turn of the loop, from the dictionary before it to the dictionary after it. The
  existence check stands before the \<^verbatim>\<open>try\<close>: what it raises leaves the loop
  and the function. In the \<^verbatim>\<open>try\<close> block only \<^verbatim>\<open>gpd.read_file\<close> can
  raise, and the assignment comes after it, so a handled exception leaves the dictionary
  as it was. The level is a small number and its decimal form is short.
\<close>

definition loop_body :: "env \<Rightarrow> int \<Rightarrow> string \<Rightarrow> path \<Rightarrow> catalog \<Rightarrow> string \<Rightarrow> catalog io" where
  "loop_body env target_adm_level release_type output_base_folder country_boundaries_dict country_name =
     io_bind (get_iso_code_from_country_name env country_name) (\<lambda>iso_code.
       if truthy iso_code then
         (let p = cache_file_path output_base_folder (the iso_code) target_adm_level release_type
          in io_bind (exists env p) (\<lambda>found.
               if found then
                 io_bind
                   (logger_info (''Loading boundary data for '' @ quoted country_name @ '' (ADM''
                                 @ str_int target_adm_level @ '') from: '' @ path_str p))
                   (\<lambda>_. io_try
                          (io_bind (read_file env p) (\<lambda>boundary_gdf.
                             io_bind
                               (logger_info (''Successfully loaded '' @ country_name @ '' (ADM''
                                             @ str_int target_adm_level @ '') as GeoDataFrame.''))
                               (\<lambda>_. io_return
                                      (AList.update country_name boundary_gdf country_boundaries_dict))))
                          (\<lambda>e. io_bind
                                 (logger_error (''Error loading GeoDataFrame for '' @ country_name
                                                @ '' (ADM'' @ str_int target_adm_level
                                                @ '') from file '' @ path_str p @ '': ''
                                                @ exn_str e @ ''. Skipping.''))
                                 (\<lambda>_. io_return country_boundaries_dict)))
               else
                 io_bind
                   (logger_info (''Cache file not found for '' @ quoted country_name @ '' (ADM''
                                 @ str_int target_adm_level @ '') at '' @ path_str p
                                 @ ''. Please ensure you have run the 'fetch_boundaries' function to download and save the data first.''))
                   (\<lambda>_. io_return country_boundaries_dict)))
       else
         io_bind
           (logger_info (''Could not find ISO code for '' @ quoted country_name
                         @ ''. Skipping this country.''))
           (\<lambda>_. io_return country_boundaries_dict))"

fun for_loop :: "env \<Rightarrow> int \<Rightarrow> string \<Rightarrow> path \<Rightarrow> catalog \<Rightarrow> string list \<Rightarrow> catalog io" where
  "for_loop env lvl rel folder d [] = io_return d"
| "for_loop env lvl rel folder d (country_name # rest) =
     io_bind (loop_body env lvl rel folder d country_name) (\<lambda>d'. for_loop env lvl rel folder d' rest)"

text \<open>The closing report: one line for each entry of the dictionary.\<close>

fun report_items :: "int \<Rightarrow> catalog \<Rightarrow> unit io" where
  "report_items lvl [] = io_return ()"
| "report_items lvl ((country_name, gdf) # rest) =
     io_bind
       (case gdf of
          GeoDataFrame rows \<Rightarrow>
            logger_info (quoted country_name @ '': Loaded GeoDataFrame with ''
                         @ str_nat (length rows) @ '' features for ADM'' @ str_int lvl @ ''.'')
        | DataFrame _ \<Rightarrow>
            logger_info (quoted country_name
                         @ '': Data available but not a valid GeoDataFrame for ADM''
                         @ str_int lvl @ ''.''))
       (\<lambda>_. report_items lvl rest)"

definition load_country_boundaries_to_dict ::
    "env \<Rightarrow> string list \<Rightarrow> int \<Rightarrow> string \<Rightarrow> string \<Rightarrow> catalog io" where
  "load_country_boundaries_to_dict env country_names_to_load target_adm_level release_type output_base_folder =
     (let folder = Path output_base_folder
      in io_bind
           (logger_info (CHR 0x0A # ''--- Creating dictionary: country_name -> boundary_gdf (ADM''
                         @ str_int target_adm_level @ '') ---''))
           (\<lambda>_. io_bind (for_loop env target_adm_level release_type folder [] country_names_to_load)
                  (\<lambda>country_boundaries_dict.
                     io_bind (logger_info (CHR 0x0A # ''--- Contents of the final country_boundaries_dict ---''))
                       (\<lambda>_. io_bind
                              (if country_boundaries_dict \<noteq> []
                               then report_items target_adm_level country_boundaries_dict
                               else logger_info ''The dictionary is empty. No boundary data could be loaded.'')
                              (\<lambda>_. io_return country_boundaries_dict)))))"

subsection \<open>The three gates of one name, and the calls of a run\<close>

text \<open>
  The three gates, as the specification words them. A name resolves to a code when
  \<^const>\<open>get_iso_code_from_country_name\<close> returns a code that is not empty; its
  record is loaded when, besides, the existence check of the cache file of that code
  answers \<^verbatim>\<open>True\<close> and the reader returns a frame for it. The existence check of
  a name answers when it is not made (the name does not resolve) or does not raise.
  These are compared below with what the loop does.
\<close>

definition resolved_code :: "env \<Rightarrow> string \<Rightarrow> string option" where
  "resolved_code env n =
     (case snd (get_iso_code_from_country_name env n) of
        Inr (Some code) \<Rightarrow> if code \<noteq> [] then Some code else None
      | _ \<Rightarrow> None)"

definition loaded_record :: "env \<Rightarrow> int \<Rightarrow> string \<Rightarrow> path \<Rightarrow> string \<Rightarrow> frame option" where
  "loaded_record env lvl rel folder n =
     (case resolved_code env n of
        None \<Rightarrow> None
      | Some code \<Rightarrow>
          if fs_exists env (cache_file_path folder code lvl rel) = Inr True
          then (case fs_read_file env (cache_file_path folder code lvl rel) of
                  Inr gdf \<Rightarrow> Some gdf
                | Inl _ \<Rightarrow> None)
          else None)"

definition check_answers :: "env \<Rightarrow> int \<Rightarrow> string \<Rightarrow> path \<Rightarrow> string \<Rightarrow> bool" where
  "check_answers env lvl rel folder n =
     (case resolved_code env n of
        None \<Rightarrow> True
      | Some code \<Rightarrow>
          (case fs_exists env (cache_file_path folder code lvl rel) of
             Inr _ \<Rightarrow> True
           | Inl _ \<Rightarrow> False))"

definition put_loaded :: "env \<Rightarrow> int \<Rightarrow> string \<Rightarrow> path \<Rightarrow> string \<Rightarrow> catalog \<Rightarrow> catalog" where
  "put_loaded env lvl rel folder n d =
     (case loaded_record env lvl rel folder n of
        Some gdf \<Rightarrow> AList.update n gdf d
      | None \<Rightarrow> d)"

text \<open>The elements of a list in the order of their first occurrence.\<close>

primrec first_occurrences :: "'a list \<Rightarrow> 'a list" where
  "first_occurrences [] = []"
| "first_occurrences (x # xs) = x # filter (\<lambda>y. y \<noteq> x) (first_occurrences xs)"

text \<open>
  The calls to the database and to the file system in a trace, without the output; and
  the calls that one name gives rise to: one fuzzy search, one existence check when the
  name resolves, one read when the check answers \<^verbatim>\<open>True\<close>.
\<close>

fun is_output :: "event \<Rightarrow> bool" where
  "is_output (Stdout _) = True"
| "is_output (LoggerCall _ _) = True"
| "is_output _ = False"

definition library_calls :: "event list \<Rightarrow> event list" where
  "library_calls tr = filter (\<lambda>e. \<not> is_output e) tr"

definition item_calls :: "env \<Rightarrow> int \<Rightarrow> string \<Rightarrow> path \<Rightarrow> string \<Rightarrow> event list" where
  "item_calls env lvl rel folder n =
     SearchFuzzy n #
     (case resolved_code env n of
        None \<Rightarrow> []
      | Some code \<Rightarrow>
          PathExists (cache_file_path folder code lvl rel) #
          (if fs_exists env (cache_file_path folder code lvl rel) = Inr True
           then [ReadFile (cache_file_path folder code lvl rel)] else []))"

subsection \<open>A small environment to run the functions in\<close>

text \<open>
  For running the functions on ASCII text: trimming and upper-casing that agree with
  \<^verbatim>\<open>str.strip\<close> and \<^verbatim>\<open>str.upper\<close> on ASCII strings (white space is 9 to
  13 and 28 to 32; the letters a to z have capitals) and leave every other byte alone.
\<close>

definition ascii_isspace :: "char \<Rightarrow> bool" where
  "ascii_isspace c = (let n = (of_char c :: nat) in (9 \<le> n \<and> n \<le> 13) \<or> (28 \<le> n \<and> n \<le> 32))"

definition ascii_strip :: "string \<Rightarrow> string" where
  "ascii_strip s = rev (dropWhile ascii_isspace (rev (dropWhile ascii_isspace s)))"

definition ascii_upper_char :: "char \<Rightarrow> char" where
  "ascii_upper_char c =
     (let n = (of_char c :: nat) in if 97 \<le> n \<and> n \<le> 122 then char_of (n - 32) else c)"

definition ascii_upper :: "string \<Rightarrow> string" where
  "ascii_upper s = map ascii_upper_char s"

definition canada :: country where
  "canada = \<lparr>name = ''Canada'', alpha_2 = ''CA'', alpha_3 = ''CAN''\<rparr>"

definition mexico :: country where
  "mexico = \<lparr>name = ''Mexico'', alpha_2 = ''MX'', alpha_3 = ''MEX''\<rparr>"

definition peru :: country where
  "peru = \<lparr>name = ''Peru'', alpha_2 = ''PE'', alpha_3 = ''PER''\<rparr>"

definition chile :: country where
  "chile = \<lparr>name = ''Chile'', alpha_2 = ''CL'', alpha_3 = ''CHL''\<rparr>"

definition cuba :: country where
  "cuba = \<lparr>name = ''Cuba'', alpha_2 = ''CU'', alpha_3 = ''CUB''\<rparr>"

text \<open>
  The database knows Canada (under two spellings), Chile, Cuba, Mexico and Peru, finds
  nothing for \<^verbatim>\<open>Atlantis\<close>, fails on \<^verbatim>\<open>Boom\<close> and raises
  \<^verbatim>\<open>LookupError\<close> for every other name. The cache holds the files of Canada,
  Chile and Peru; the file of Peru cannot be read. The cache file of Cuba is a symbolic
  link into a directory that may not be searched, so its existence check raises
  \<^verbatim>\<open>PermissionError\<close>; and the existence check of a path with a component of
  more than 255 bytes raises the \<^verbatim>\<open>OSError\<close> of a file name that is too long.
\<close>

definition demo_env :: env where
  "demo_env =
     \<lparr>py_strip = ascii_strip,
      py_upper = ascii_upper,
      db_get = (\<lambda>k c. if k = Alpha_2 \<and> c = ''CA'' \<or> k = Alpha_3 \<and> c = ''CAN'' then Inr (Some canada)
                       else if c = ''BOOM'' then Inl (OtherException ''database is locked'')
                       else if k = Alpha_3 \<and> c = ''KEY'' then Inl (LookupError ''KEY'')
                       else Inr None),
      db_search_fuzzy = (\<lambda>q. if q = ''Canada'' \<or> q = ''canada'' then Inr [canada, mexico]
                              else if q = ''Chile'' then Inr [chile]
                              else if q = ''Cuba'' then Inr [cuba]
                              else if q = ''Mexico'' then Inr [mexico]
                              else if q = ''Peru'' then Inr [peru]
                              else if q = ''Atlantis'' then Inr []
                              else if q = ''Boom'' then Inl (OtherException ''database is locked'')
                              else Inl (LookupError q)),
      fs_exists = (\<lambda>p. if list_ex (\<lambda>part. 255 < length part) (path_parts p)
                        then Inl (OtherException ''[Errno 36] File name too long'')
                        else if p = Path ''out/CUB_ADM0_gbOpen.geojson''
                        then Inl (OtherException ''[Errno 13] Permission denied'')
                        else Inr (p = Path ''out/CAN_ADM0_gbOpen.geojson''
                                  \<or> p = Path ''out/CHL_ADM0_gbOpen.geojson''
                                  \<or> p = Path ''out/PER_ADM0_gbOpen.geojson'')),
      fs_read_file = (\<lambda>p. if p = Path ''out/CAN_ADM0_gbOpen.geojson'' then Inr (GeoDataFrame [''feature''])
                           else if p = Path ''out/CHL_ADM0_gbOpen.geojson'' then Inr (GeoDataFrame [''north'', ''south''])
                           else Inl (OtherException ''not a GeoJSON file''))\<rparr>"

definition demo_names :: "string list" where
  "demo_names = [''Chile'', ''Canada'', ''Nowhereland'', ''Boom'', ''Mexico'', ''Peru'', ''Canada'']"

definition demo_env_later :: env where
  "demo_env_later =
     demo_env\<lparr>db_get := (\<lambda>k c. Inr None),
              fs_exists := (\<lambda>p. if p = Path ''out/MEX_ADM1_gbOpen.geojson'' then Inr True
                                 else fs_exists demo_env p)\<rparr>"

section \<open>Properties\<close>

subsection \<open>Results and traces of the monadic code\<close>

lemma get_iso_code_result:
  "get_iso_code_from_country_name env n =
     (case db_search_fuzzy env n of
        Inr [] \<Rightarrow> ([SearchFuzzy n], Inr None)
      | Inr (c # cs) \<Rightarrow> ([SearchFuzzy n], Inr (Some (alpha_3 c)))
      | Inl (LookupError m) \<Rightarrow> ([SearchFuzzy n], Inr None)
      | Inl (OtherException m) \<Rightarrow>
          (SearchFuzzy n # fst (logger_error (''An error occurred while looking up ISO code for ''
                                  @ quoted n @ '': '' @ m)), Inr None))"
  by (simp add: get_iso_code_from_country_name_def countries_search_fuzzy_def io_try_def
        io_bind_def io_return_def logger_error_def split: sum.split list.split exn.split)

lemma get_iso_code_returns:
  "\<exists>tr v. get_iso_code_from_country_name env n = (tr, Inr v)"
  by (simp add: get_iso_code_result split: sum.split list.split exn.split)

lemma snd_io_bind:
  "snd (io_bind m f) = (case snd m of Inl e \<Rightarrow> Inl e | Inr x \<Rightarrow> snd (f x))"
  by (cases m) (simp add: io_bind_def split: sum.split prod.split)

lemma fst_io_bind:
  "fst (io_bind m f) = (case snd m of Inl e \<Rightarrow> fst m | Inr x \<Rightarrow> fst m @ fst (f x))"
  by (cases m) (simp add: io_bind_def split: sum.split prod.split)

lemma snd_logger_info [simp]: "snd (logger_info m) = Inr ()"
  by (simp add: logger_info_def)

lemma snd_io_return [simp]: "snd (io_return x) = Inr x"
  by (simp add: io_return_def)

lemma fst_io_return [simp]: "fst (io_return x) = []"
  by (simp add: io_return_def)

lemma library_calls_append [simp]:
  "library_calls (xs @ ys) = library_calls xs @ library_calls ys"
  by (simp add: library_calls_def)

lemma library_calls_Nil [simp]: "library_calls [] = []"
  by (simp add: library_calls_def)

lemma library_calls_logger [simp]:
  "library_calls (fst (logger_info m)) = []" "library_calls (fst (logger_error m)) = []"
  by (simp_all add: library_calls_def logger_info_def logger_error_def)

lemma loop_body_result:
  assumes "check_answers env lvl rel folder n"
  shows "loop_body env lvl rel folder d n =
           (fst (loop_body env lvl rel folder [] n), Inr (put_loaded env lvl rel folder n d))"
proof -
  obtain tr v where g: "get_iso_code_from_country_name env n = (tr, Inr v)"
    using get_iso_code_returns by blast
  show ?thesis
  proof (cases v)
    case None
    with g show ?thesis
      by (simp add: loop_body_def put_loaded_def loaded_record_def resolved_code_def
            io_bind_def io_return_def logger_info_def)
  next
    case (Some code)
    show ?thesis
    proof (cases "code = []")
      case True
      with g Some show ?thesis
        by (simp add: loop_body_def put_loaded_def loaded_record_def resolved_code_def
              io_bind_def io_return_def logger_info_def)
    next
      case False
      with g Some have r: "resolved_code env n = Some code"
        by (simp add: resolved_code_def)
      with assms obtain b where b: "fs_exists env (cache_file_path folder code lvl rel) = Inr b"
        by (auto simp: check_answers_def split: sum.splits)
      from g Some False r b show ?thesis
        by (simp add: loop_body_def put_loaded_def loaded_record_def
              io_bind_def io_return_def io_try_def logger_info_def logger_error_def exists_def
              read_file_def Let_def split: sum.split)
    qed
  qed
qed

lemma snd_loop_body:
  "check_answers env lvl rel folder n \<Longrightarrow>
     snd (loop_body env lvl rel folder d n) = Inr (put_loaded env lvl rel folder n d)"
  using loop_body_result [of env lvl rel folder n d] by simp

lemma loop_body_raises:
  assumes "\<not> check_answers env lvl rel folder n"
  shows "\<exists>e. snd (loop_body env lvl rel folder d n) = Inl e"
proof -
  from assms obtain code e where r: "resolved_code env n = Some code"
    and x: "fs_exists env (cache_file_path folder code lvl rel) = Inl e"
    by (auto simp: check_answers_def split: option.splits sum.splits)
  obtain tr v where g: "get_iso_code_from_country_name env n = (tr, Inr v)"
    using get_iso_code_returns by blast
  with r have v: "v = Some code" "code \<noteq> []"
    by (auto simp: resolved_code_def split: option.splits if_splits)
  from g v x have "snd (loop_body env lvl rel folder d n) = Inl e"
    by (simp add: loop_body_def snd_io_bind exists_def Let_def)
  then show ?thesis ..
qed

lemma loop_body_calls:
  "library_calls (fst (loop_body env lvl rel folder d n)) = item_calls env lvl rel folder n"
proof -
  obtain tr v where g: "get_iso_code_from_country_name env n = (tr, Inr v)"
    using get_iso_code_returns by blast
  have tr: "library_calls tr = [SearchFuzzy n]"
    using g
    by (auto simp: get_iso_code_result library_calls_def logger_error_def
          split: sum.splits list.splits exn.splits)
  show ?thesis
  proof (cases "truthy v")
    case False
    with g tr show ?thesis
      by (cases v) (simp_all add: loop_body_def item_calls_def resolved_code_def fst_io_bind)
  next
    case True
    then obtain code where v: "v = Some code" "code \<noteq> []" by (cases v) auto
    with g have r: "resolved_code env n = Some code" by (simp add: resolved_code_def)
    show ?thesis
    proof (cases "fs_exists env (cache_file_path folder code lvl rel)")
      case (Inl e)
      with g tr v r show ?thesis
        by (simp add: loop_body_def item_calls_def fst_io_bind exists_def Let_def library_calls_def)
    next
      case (Inr b)
      with g tr v r show ?thesis
        by (simp add: loop_body_def item_calls_def fst_io_bind snd_io_bind
              io_try_def exists_def read_file_def Let_def library_calls_def logger_info_def
              logger_error_def io_return_def io_bind_def
              split: sum.split)
    qed
  qed
qed

lemma for_loop_result:
  "\<forall>n\<in>set ns. check_answers env lvl rel folder n \<Longrightarrow>
   for_loop env lvl rel folder d ns =
     (concat (map (\<lambda>n. fst (loop_body env lvl rel folder [] n)) ns),
      Inr (fold (put_loaded env lvl rel folder) ns d))"
proof (induction ns arbitrary: d)
  case Nil
  show ?case by (simp add: io_return_def)
next
  case (Cons n ns)
  then have "check_answers env lvl rel folder n" by simp
  from loop_body_result [OF this, of d] Cons show ?case
    by (simp add: io_bind_def)
qed

lemma for_loop_returns_iff:
  "(\<exists>d'. snd (for_loop env lvl rel folder d ns) = Inr d')
     \<longleftrightarrow> (\<forall>n\<in>set ns. check_answers env lvl rel folder n)"
proof (induction ns arbitrary: d)
  case Nil
  show ?case by simp
next
  case (Cons n ns)
  show ?case
  proof (cases "check_answers env lvl rel folder n")
    case True
    with Cons.IH [of "put_loaded env lvl rel folder n d"] show ?thesis
      by (simp add: snd_io_bind snd_loop_body)
  next
    case False
    from loop_body_raises [OF this, of d] False show ?thesis
      by (auto simp: snd_io_bind)
  qed
qed

lemma for_loop_calls:
  "\<forall>n\<in>set ns. check_answers env lvl rel folder n \<Longrightarrow>
   library_calls (fst (for_loop env lvl rel folder d ns)) =
     concat (map (item_calls env lvl rel folder) ns)"
  by (induction ns arbitrary: d) (simp_all add: fst_io_bind snd_loop_body loop_body_calls)

lemma for_loop_calls_subset:
  "set (library_calls (fst (for_loop env lvl rel folder d ns)))
     \<subseteq> (\<Union>n\<in>set ns. set (item_calls env lvl rel folder n))"
proof (induction ns arbitrary: d)
  case Nil
  show ?case by simp
next
  case (Cons n ns)
  show ?case
  proof (cases "snd (loop_body env lvl rel folder d n)")
    case (Inl e)
    then show ?thesis by (simp add: fst_io_bind loop_body_calls)
  next
    case (Inr d')
    with Cons.IH [of d'] show ?thesis
      by (auto simp: fst_io_bind loop_body_calls)
  qed
qed

lemma report_items_returns: "snd (report_items lvl d) = Inr ()"
  by (induction lvl d rule: report_items.induct)
     (simp_all add: snd_io_bind split: frame.split)

lemma report_items_calls: "library_calls (fst (report_items lvl d)) = []"
  by (induction lvl d rule: report_items.induct)
     (simp_all add: fst_io_bind io_return_def library_calls_def logger_info_def split: frame.split)

lemma snd_load:
  "snd (load_country_boundaries_to_dict env ns lvl rel base) =
     snd (for_loop env lvl rel (Path base) [] ns)"
  by (simp add: load_country_boundaries_to_dict_def Let_def snd_io_bind report_items_returns
        split: sum.split)

lemma load_result:
  "\<forall>n\<in>set ns. check_answers env lvl rel (Path base) n \<Longrightarrow>
   snd (load_country_boundaries_to_dict env ns lvl rel base) =
     Inr (fold (put_loaded env lvl rel (Path base)) ns [])"
  by (simp add: snd_load for_loop_result)

lemma load_returns_iff:
  "(\<exists>cat. snd (load_country_boundaries_to_dict env ns lvl rel base) = Inr cat)
     \<longleftrightarrow> (\<forall>n\<in>set ns. check_answers env lvl rel (Path base) n)"
  by (simp add: snd_load for_loop_returns_iff)

lemma load_calls_loop:
  "library_calls (fst (load_country_boundaries_to_dict env ns lvl rel base)) =
     library_calls (fst (for_loop env lvl rel (Path base) [] ns))"
  by (simp add: load_country_boundaries_to_dict_def Let_def fst_io_bind snd_io_bind
        report_items_returns report_items_calls split: sum.split)

lemma load_calls:
  "\<forall>n\<in>set ns. check_answers env lvl rel (Path base) n \<Longrightarrow>
   library_calls (fst (load_country_boundaries_to_dict env ns lvl rel base)) =
     concat (map (item_calls env lvl rel (Path base)) ns)"
  by (simp add: load_calls_loop for_loop_calls)

lemma load_calls_subset:
  "set (library_calls (fst (load_country_boundaries_to_dict env ns lvl rel base)))
     \<subseteq> (\<Union>n\<in>set ns. set (item_calls env lvl rel (Path base) n))"
  by (simp add: load_calls_loop for_loop_calls_subset)

lemma set_first_occurrences [simp]: "set (first_occurrences xs) = set xs"
  by (induction xs) auto

lemma distinct_first_occurrences [simp]: "distinct (first_occurrences xs)"
  by (induction xs) auto

lemma put_loaded_keys:
  "map fst (put_loaded env lvl rel folder n d) =
     (if loaded_record env lvl rel folder n \<noteq> None \<and> n \<notin> set (map fst d)
      then map fst d @ [n] else map fst d)"
  by (auto simp: put_loaded_def update_keys split: option.split)

lemma fold_put_loaded_keys:
  "map fst (fold (put_loaded env lvl rel folder) ns d) =
     map fst d @ filter (\<lambda>k. k \<notin> set (map fst d))
       (first_occurrences (filter (\<lambda>n. loaded_record env lvl rel folder n \<noteq> None) ns))"
proof (induction ns arbitrary: d)
  case Nil
  show ?case by simp
next
  case (Cons n ns)
  show ?case
    unfolding fold_simps Cons.IH put_loaded_keys
    by (auto intro!: filter_cong)
qed

lemma put_loaded_distinct:
  "distinct (map fst d) \<Longrightarrow> distinct (map fst (put_loaded env lvl rel folder n d))"
  by (simp add: put_loaded_def distinct_update split: option.split)

lemma fold_put_loaded_distinct:
  "distinct (map fst d) \<Longrightarrow> distinct (map fst (fold (put_loaded env lvl rel folder) ns d))"
  by (induction ns arbitrary: d) (simp_all add: put_loaded_distinct)

lemma put_loaded_map_of:
  "map_of (put_loaded env lvl rel folder n d) k =
     (if k = n \<and> loaded_record env lvl rel folder n \<noteq> None
      then loaded_record env lvl rel folder n else map_of d k)"
  by (auto simp: put_loaded_def update_conv' split: option.split)

lemma fold_put_loaded_map_of:
  "map_of (fold (put_loaded env lvl rel folder) ns d) k =
     (if k \<in> set ns \<and> loaded_record env lvl rel folder k \<noteq> None
      then loaded_record env lvl rel folder k else map_of d k)"
  by (induction ns arbitrary: d) (auto simp: put_loaded_map_of)

subsection \<open>The loader\<close>

text \<open>
  C3, as the code has it. When no existence check of the run raises, the loader returns
  a catalog, whatever the database and the reader raise and whatever files exist: a turn
  of the loop whose existence check answers returns a dictionary from every dictionary,
  and so does the whole call. A name whose record is not loaded (not resolved, no cache
  file, or a reader failure) is not a key of the result.
\<close>

theorem load_never_raises:
  assumes "\<forall>n\<in>set names. check_answers env lvl rel (Path base) n"
  shows "\<exists>tr cat. load_country_boundaries_to_dict env names lvl rel base = (tr, Inr cat)
      \<and> (\<forall>n. loaded_record env lvl rel (Path base) n = None \<longrightarrow> n \<notin> fst ` set cat)
      \<and> (\<forall>d n. check_answers env lvl rel (Path base) n \<longrightarrow>
            (\<exists>tr' d'. loop_body env lvl rel (Path base) d n = (tr', Inr d')))"
proof -
  let ?cat = "fold (put_loaded env lvl rel (Path base)) names []"
  have "snd (load_country_boundaries_to_dict env names lvl rel base) = Inr ?cat"
    using assms by (rule load_result)
  then have run: "load_country_boundaries_to_dict env names lvl rel base =
      (fst (load_country_boundaries_to_dict env names lvl rel base), Inr ?cat)"
    by (metis prod.collapse)
  have absent: "n \<notin> fst ` set ?cat" if "loaded_record env lvl rel (Path base) n = None" for n
  proof
    assume "n \<in> fst ` set ?cat"
    then have "n \<in> set (map fst ?cat)" by simp
    then show False using that by (simp add: fold_put_loaded_keys)
  qed
  have body: "\<exists>tr' d'. loop_body env lvl rel (Path base) d n = (tr', Inr d')"
    if "check_answers env lvl rel (Path base) n" for d n
    using loop_body_result [OF that, of d] by blast
  from run absent body show ?thesis by blast
qed

theorem load_never_raises_witness:
  "\<exists>tr cat. load_country_boundaries_to_dict demo_env demo_names 0 ''gbOpen'' ''out'' = (tr, Inr cat)
      \<and> ''Nowhereland'' \<notin> fst ` set cat \<and> ''Boom'' \<notin> fst ` set cat
      \<and> ''Mexico'' \<notin> fst ` set cat \<and> ''Peru'' \<notin> fst ` set cat"
proof -
  have 0: "\<forall>n\<in>set demo_names. check_answers demo_env 0 ''gbOpen'' (Path ''out'') n" by code_simp
  have 1: "loaded_record demo_env 0 ''gbOpen'' (Path ''out'') ''Nowhereland'' = None" by code_simp
  have 2: "loaded_record demo_env 0 ''gbOpen'' (Path ''out'') ''Boom'' = None" by code_simp
  have 3: "loaded_record demo_env 0 ''gbOpen'' (Path ''out'') ''Mexico'' = None" by code_simp
  have 4: "loaded_record demo_env 0 ''gbOpen'' (Path ''out'') ''Peru'' = None" by code_simp
  from load_never_raises [OF 0]
  obtain tr cat where r: "load_country_boundaries_to_dict demo_env demo_names 0 ''gbOpen'' ''out'' = (tr, Inr cat)"
     and a: "\<And>n. loaded_record demo_env 0 ''gbOpen'' (Path ''out'') n = None \<Longrightarrow> n \<notin> fst ` set cat"
    by blast
  from r a [OF 1] a [OF 2] a [OF 3] a [OF 4] show ?thesis by blast
qed

theorem load_raises_counterexample:
  "snd (load_country_boundaries_to_dict demo_env [''Canada''] 0 (replicate 300 CHR ''x'') ''out'')
     = Inl (OtherException ''[Errno 36] File name too long'')"
  by code_simp

lemma put_loaded_id:
  "loaded_record env lvl rel folder n = None \<Longrightarrow> put_loaded env lvl rel folder n d = d"
  by (simp add: put_loaded_def)

lemma loaded_record_unresolved:
  "resolved_code env n = None \<Longrightarrow> loaded_record env lvl rel folder n = None"
  by (simp add: loaded_record_def)

lemma check_answers_unresolved:
  "resolved_code env n = None \<Longrightarrow> check_answers env lvl rel folder n"
  by (simp add: check_answers_def)

lemma fold_put_loaded_unresolved:
  "\<forall>n\<in>set ns. resolved_code env n = None \<Longrightarrow> fold (put_loaded env lvl rel folder) ns d = d"
  by (induction ns arbitrary: d) (simp_all add: put_loaded_id loaded_record_unresolved)

text \<open>
  C7. The loader returns the empty catalog for the empty list of names, whatever the
  other arguments are, and for every list of names none of which resolves to a code.
\<close>

theorem load_empty_catalog:
  "snd (load_country_boundaries_to_dict env [] lvl rel base) = Inr []
   \<and> ((\<forall>n\<in>set names. resolved_code env n = None) \<longrightarrow>
        snd (load_country_boundaries_to_dict env names lvl rel base) = Inr [])"
  by (simp add: load_result fold_put_loaded_unresolved check_answers_unresolved)

theorem load_empty_catalog_witness:
  "snd (get_iso_code_from_country_name demo_env ''Nowhereland'') = Inr None
   \<and> snd (load_country_boundaries_to_dict demo_env [''Nowhereland''] 0 ''gbOpen'' ''geoboundaries_output'') = Inr []"
proof -
  have g: "snd (get_iso_code_from_country_name demo_env ''Nowhereland'') = Inr None"
    by code_simp
  then have r: "\<forall>n\<in>set [''Nowhereland'']. resolved_code demo_env n = None"
    by (simp add: resolved_code_def)
  from load_empty_catalog [of demo_env 0 "''gbOpen''" "''geoboundaries_output''" "[''Nowhereland'']"] r g
  show ?thesis by simp
qed

lemma loaded_record_Some:
  "loaded_record env lvl rel folder n = Some gdf \<longleftrightarrow>
     (\<exists>code. resolved_code env n = Some code
        \<and> fs_exists env (cache_file_path folder code lvl rel) = Inr True
        \<and> fs_read_file env (cache_file_path folder code lvl rel) = Inr gdf)"
  by (auto simp: loaded_record_def split: option.splits sum.splits if_splits)

text \<open>
  C1, as the code has it. When no existence check of the run raises, the loader returns a
  catalog. Its calls to the libraries are those of the names, one name after the other in
  the order of the input. A pair of a name and a frame is an entry of the catalog exactly
  when the name is in the input, resolves to a code, the existence check of the cache
  file of that code answers \<^verbatim>\<open>True\<close> and the reader returns that frame for it.
  The keys of the catalog are the loaded names in the order of their first occurrence in
  the input.
\<close>

theorem load_catalog_entries:
  assumes "\<forall>n\<in>set names. check_answers env lvl rel (Path base) n"
  shows "\<exists>tr cat. load_country_boundaries_to_dict env names lvl rel base = (tr, Inr cat)
     \<and> library_calls tr = concat (map (item_calls env lvl rel (Path base)) names)
     \<and> (\<forall>n gdf. (n, gdf) \<in> set cat \<longleftrightarrow>
           n \<in> set names
           \<and> (\<exists>code. resolved_code env n = Some code
                \<and> fs_exists env (cache_file_path (Path base) code lvl rel) = Inr True
                \<and> fs_read_file env (cache_file_path (Path base) code lvl rel) = Inr gdf))
     \<and> map fst cat =
         first_occurrences (filter (\<lambda>n. loaded_record env lvl rel (Path base) n \<noteq> None) names)"
proof -
  let ?cat = "fold (put_loaded env lvl rel (Path base)) names []"
  let ?run = "load_country_boundaries_to_dict env names lvl rel base"
  have "snd ?run = Inr ?cat" using assms by (rule load_result)
  then have run: "?run = (fst ?run, Inr ?cat)" by (metis prod.collapse)
  have calls: "library_calls (fst ?run) = concat (map (item_calls env lvl rel (Path base)) names)"
    using assms by (rule load_calls)
  have dist: "distinct (map fst ?cat)"
    by (simp add: fold_put_loaded_distinct)
  have entries: "(n, gdf) \<in> set ?cat \<longleftrightarrow>
           n \<in> set names
           \<and> (\<exists>code. resolved_code env n = Some code
                \<and> fs_exists env (cache_file_path (Path base) code lvl rel) = Inr True
                \<and> fs_read_file env (cache_file_path (Path base) code lvl rel) = Inr gdf)" for n gdf
  proof -
    have "(n, gdf) \<in> set ?cat \<longleftrightarrow> map_of ?cat n = Some gdf"
      using dist by simp
    also have "\<dots> \<longleftrightarrow> n \<in> set names \<and> loaded_record env lvl rel (Path base) n = Some gdf"
      by (auto simp: fold_put_loaded_map_of)
    finally show ?thesis by (simp add: loaded_record_Some)
  qed
  have keys: "map fst ?cat =
         first_occurrences (filter (\<lambda>n. loaded_record env lvl rel (Path base) n \<noteq> None) names)"
    by (simp add: fold_put_loaded_keys)
  from run calls entries keys show ?thesis by blast
qed

theorem load_catalog_entries_witness:
  "\<exists>tr cat. load_country_boundaries_to_dict demo_env demo_names 0 ''gbOpen'' ''out'' = (tr, Inr cat)
     \<and> map fst cat = [''Chile'', ''Canada'']
     \<and> (''Chile'', GeoDataFrame [''north'', ''south'']) \<in> set cat
     \<and> (''Peru'', GeoDataFrame []) \<notin> set cat"
proof -
  have k: "first_occurrences
             (filter (\<lambda>n. loaded_record demo_env 0 ''gbOpen'' (Path ''out'') n \<noteq> None) demo_names)
           = [''Chile'', ''Canada'']"
    by code_simp
  have m: "''Chile'' \<in> set demo_names" by code_simp
  have c: "resolved_code demo_env ''Chile'' = Some ''CHL''" by code_simp
  have a: "\<forall>n\<in>set demo_names. check_answers demo_env 0 ''gbOpen'' (Path ''out'') n" by code_simp
  have e: "fs_exists demo_env (cache_file_path (Path ''out'') ''CHL'' 0 ''gbOpen'') = Inr True" by code_simp
  have r: "fs_read_file demo_env (cache_file_path (Path ''out'') ''CHL'' 0 ''gbOpen'')
             = Inr (GeoDataFrame [''north'', ''south''])"
    by code_simp
  have p: "resolved_code demo_env ''Peru'' = Some ''PER''" by code_simp
  have f: "fs_read_file demo_env (cache_file_path (Path ''out'') ''PER'' 0 ''gbOpen'')
             \<noteq> Inr (GeoDataFrame [])"
    by code_simp
  from load_catalog_entries [OF a]
  obtain tr cat where run: "load_country_boundaries_to_dict demo_env demo_names 0 ''gbOpen'' ''out'' = (tr, Inr cat)"
    and entries: "\<And>n gdf. (n, gdf) \<in> set cat \<longleftrightarrow>
           n \<in> set demo_names
           \<and> (\<exists>code. resolved_code demo_env n = Some code
                \<and> fs_exists demo_env (cache_file_path (Path ''out'') code 0 ''gbOpen'') = Inr True
                \<and> fs_read_file demo_env (cache_file_path (Path ''out'') code 0 ''gbOpen'') = Inr gdf)"
    and keys: "map fst cat = first_occurrences
             (filter (\<lambda>n. loaded_record demo_env 0 ''gbOpen'' (Path ''out'') n \<noteq> None) demo_names)"
    by blast
  have 1: "(''Chile'', GeoDataFrame [''north'', ''south'']) \<in> set cat"
    unfolding entries using m c e r by blast
  have 2: "(''Peru'', GeoDataFrame []) \<notin> set cat"
    unfolding entries using p f by simp
  from run keys k 1 2 show ?thesis by metis
qed

theorem load_catalog_entries_counterexample:
  "resolved_code demo_env ''Chile'' = Some ''CHL''
   \<and> fs_exists demo_env (cache_file_path (Path ''out'') ''CHL'' 0 ''gbOpen'') = Inr True
   \<and> fs_read_file demo_env (cache_file_path (Path ''out'') ''CHL'' 0 ''gbOpen'')
       = Inr (GeoDataFrame [''north'', ''south''])
   \<and> snd (load_country_boundaries_to_dict demo_env [''Chile'', ''Cuba''] 0 ''gbOpen'' ''out'')
       = Inl (OtherException ''[Errno 13] Permission denied'')"
  by code_simp

lemma split_sep_no_sep: "sep \<notin> set s \<Longrightarrow> split_sep sep s = [s]"
  by (induction s) auto

lemma splitroot_relative: "CHR ''/'' \<notin> set s \<Longrightarrow> splitroot s = ([], s)"
  by (cases s) (auto simp: splitroot_def)

lemma Path_single:
  "CHR ''/'' \<notin> set s \<Longrightarrow> s \<noteq> [] \<Longrightarrow> s \<noteq> ''.'' \<Longrightarrow> Path s = \<lparr>path_root = [], path_parts = [s]\<rparr>"
  by (simp add: Path_def splitroot_relative split_sep_no_sep)

lemma digit_in: "n < 10 \<Longrightarrow> digit n \<in> set ''0123456789''"
  unfolding digit_def by (rule nth_mem) simp

lemma str_nat_digits: "set (str_nat n) \<subseteq> set ''0123456789''"
proof (induction n rule: str_nat.induct)
  case (1 n)
  show ?case
  proof (cases "n < 10")
    case True
    then show ?thesis using digit_in [of n] by (subst str_nat.simps) simp
  next
    case False
    have "n mod 10 < 10" by simp
    then have "digit (n mod 10) \<in> set ''0123456789''" by (rule digit_in)
    with False "1.IH" show ?thesis by (subst str_nat.simps) simp
  qed
qed

lemma str_int_no_slash: "CHR ''/'' \<notin> set (str_int i)"
  using str_nat_digits [of "nat i"] str_nat_digits [of "nat (- i)"]
  by (auto simp: str_int_def)

lemma cache_file_path_parts:
  assumes "CHR ''/'' \<notin> set code" and "CHR ''/'' \<notin> set rel"
  shows "cache_file_path folder code lvl rel =
           \<lparr>path_root = path_root folder,
            path_parts = path_parts folder @ [code @ ''_ADM'' @ str_int lvl @ ''_'' @ rel @ ''.geojson'']\<rparr>"
proof -
  let ?f = "code @ ''_ADM'' @ str_int lvl @ ''_'' @ rel @ ''.geojson''"
  have 1: "CHR ''/'' \<notin> set ?f" using assms str_int_no_slash by simp
  have "CHR ''_'' \<in> set ?f" by simp
  then have 2: "?f \<noteq> []" "?f \<noteq> ''.''" by auto
  have "Path ?f = \<lparr>path_root = [], path_parts = [?f]\<rparr>"
    using 1 2 by (rule Path_single)
  then show ?thesis by (simp add: cache_file_path_def truediv_def)
qed

lemma item_calls_paths:
  "e \<in> set (item_calls env lvl rel folder n) \<Longrightarrow> e = PathExists p \<or> e = ReadFile p \<Longrightarrow>
     \<exists>code. resolved_code env n = Some code \<and> p = cache_file_path folder code lvl rel"
  by (cases "resolved_code env n") (auto simp: item_calls_def split: if_splits)

text \<open>
  C4. Every path whose existence the loader checks and every path it reads is the cache
  file path of the base folder, of the code that a name of the input resolves to, of the
  level and of the release type. When neither the code nor the release type contains a
  slash, that path is the base folder followed by the single component
  \<^verbatim>\<open><code>_ADM<level>_<release type>.geojson\<close>. The path is a function of these
  four values, and the trace of a run has no event that writes.
\<close>

theorem cache_path_checked_and_read:
  "(\<forall>e\<in>set (fst (load_country_boundaries_to_dict env names lvl rel base)).
      \<forall>p. e = PathExists p \<or> e = ReadFile p \<longrightarrow>
        (\<exists>n\<in>set names. \<exists>code. resolved_code env n = Some code
            \<and> p = cache_file_path (Path base) code lvl rel))
   \<and> (CHR ''/'' \<notin> set code \<and> CHR ''/'' \<notin> set rel \<longrightarrow>
        cache_file_path (Path base) code lvl rel =
          \<lparr>path_root = path_root (Path base),
           path_parts = path_parts (Path base)
                        @ [code @ ''_ADM'' @ str_int lvl @ ''_'' @ rel @ ''.geojson'']\<rparr>)"
proof -
  let ?tr = "fst (load_country_boundaries_to_dict env names lvl rel base)"
  have "\<exists>n\<in>set names. \<exists>code. resolved_code env n = Some code
            \<and> p = cache_file_path (Path base) code lvl rel"
    if e: "e \<in> set ?tr" and k: "e = PathExists p \<or> e = ReadFile p" for e p
  proof -
    from k have "\<not> is_output e" by auto
    with e have "e \<in> set (library_calls ?tr)" by (simp add: library_calls_def)
    then obtain n where n: "n \<in> set names" and "e \<in> set (item_calls env lvl rel (Path base) n)"
      using load_calls_subset [of env names lvl rel base] by auto
    with k have "\<exists>code. resolved_code env n = Some code \<and> p = cache_file_path (Path base) code lvl rel"
      by (intro item_calls_paths)
    with n show ?thesis by blast
  qed
  then show ?thesis using cache_file_path_parts by blast
qed

theorem cache_path_checked_and_read_witness:
  "PathExists (Path ''out/CHL_ADM0_gbOpen.geojson'')
     \<in> set (fst (load_country_boundaries_to_dict demo_env [''Chile''] 0 ''gbOpen'' ''out''))
   \<and> ReadFile (Path ''out/CHL_ADM0_gbOpen.geojson'')
     \<in> set (fst (load_country_boundaries_to_dict demo_env [''Chile''] 0 ''gbOpen'' ''out''))
   \<and> resolved_code demo_env ''Chile'' = Some ''CHL''
   \<and> Path ''out/CHL_ADM0_gbOpen.geojson'' = cache_file_path (Path ''out'') ''CHL'' 0 ''gbOpen''
   \<and> cache_file_path (Path ''out'') ''CHL'' 0 ''gbOpen''
       = \<lparr>path_root = [], path_parts = [''out'', ''CHL_ADM0_gbOpen.geojson'']\<rparr>"
proof -
  let ?tr = "fst (load_country_boundaries_to_dict demo_env [''Chile''] 0 ''gbOpen'' ''out'')"
  have calls: "library_calls ?tr =
      [SearchFuzzy ''Chile'', PathExists (Path ''out/CHL_ADM0_gbOpen.geojson''),
       ReadFile (Path ''out/CHL_ADM0_gbOpen.geojson'')]"
    by code_simp
  have sub: "set (library_calls ?tr) \<subseteq> set ?tr"
    by (simp add: library_calls_def)
  have ex: "PathExists (Path ''out/CHL_ADM0_gbOpen.geojson'') \<in> set ?tr"
    and rd: "ReadFile (Path ''out/CHL_ADM0_gbOpen.geojson'') \<in> set ?tr"
    using sub unfolding calls by simp_all
  have c: "resolved_code demo_env ''Chile'' = Some ''CHL''" by code_simp
  have s: "CHR ''/'' \<notin> set ''CHL'' \<and> CHR ''/'' \<notin> set ''gbOpen''" by simp
  have v: "str_int 0 = ''0''" by code_simp
  have b: "Path ''out'' = \<lparr>path_root = [], path_parts = [''out'']\<rparr>" by code_simp
  note inst = cache_path_checked_and_read [of demo_env "[''Chile'']" 0 "''gbOpen''" "''out''" "''CHL''"]
  from inst ex obtain code where "resolved_code demo_env ''Chile'' = Some code"
    and "Path ''out/CHL_ADM0_gbOpen.geojson'' = cache_file_path (Path ''out'') code 0 ''gbOpen''"
    by fastforce
  with c have p: "Path ''out/CHL_ADM0_gbOpen.geojson'' = cache_file_path (Path ''out'') ''CHL'' 0 ''gbOpen''"
    by simp
  from inst s have "cache_file_path (Path ''out'') ''CHL'' 0 ''gbOpen''
       = \<lparr>path_root = path_root (Path ''out''),
          path_parts = path_parts (Path ''out'') @ [''CHL'' @ ''_ADM'' @ str_int 0 @ ''_'' @ ''gbOpen'' @ ''.geojson'']\<rparr>"
    by blast
  then have q: "cache_file_path (Path ''out'') ''CHL'' 0 ''gbOpen''
       = \<lparr>path_root = [], path_parts = [''out'', ''CHL_ADM0_gbOpen.geojson'']\<rparr>"
    by (simp add: v b)
  from ex rd c p q show ?thesis by simp
qed

lemma get_iso_code_cong:
  "db_search_fuzzy env1 n = db_search_fuzzy env2 n \<Longrightarrow>
     get_iso_code_from_country_name env1 n = get_iso_code_from_country_name env2 n"
  by (simp add: get_iso_code_result)

lemma io_bind_Inr: "io_bind (tr, Inr x) f = (tr @ fst (f x), snd (f x))"
  by (simp add: io_bind_def split: prod.split)

lemma loop_body_cong:
  assumes db: "db_search_fuzzy env1 n = db_search_fuzzy env2 n"
    and fs: "case resolved_code env1 n of
               None \<Rightarrow> True
             | Some code \<Rightarrow>
                 fs_exists env1 (cache_file_path folder code lvl rel)
                   = fs_exists env2 (cache_file_path folder code lvl rel)
                 \<and> fs_read_file env1 (cache_file_path folder code lvl rel)
                   = fs_read_file env2 (cache_file_path folder code lvl rel)"
  shows "loop_body env1 lvl rel folder d n = loop_body env2 lvl rel folder d n"
proof -
  have same: "get_iso_code_from_country_name env2 n = get_iso_code_from_country_name env1 n"
    using get_iso_code_cong [OF db] by simp
  obtain tr v where g: "get_iso_code_from_country_name env1 n = (tr, Inr v)"
    using get_iso_code_returns by blast
  show ?thesis
  proof (cases "truthy v")
    case False
    then show ?thesis
      unfolding loop_body_def same g io_bind_Inr by (simp only: if_False)
  next
    case True
    then obtain code where v: "v = Some code" and ne: "code \<noteq> []"
      by (cases v) auto
    with g have "resolved_code env1 n = Some code"
      by (simp add: resolved_code_def)
    with fs have "fs_exists env2 (cache_file_path folder code lvl rel)
                   = fs_exists env1 (cache_file_path folder code lvl rel)"
      and "fs_read_file env2 (cache_file_path folder code lvl rel)
                   = fs_read_file env1 (cache_file_path folder code lvl rel)"
      by simp_all
    then have e: "exists env2 (cache_file_path folder code lvl rel)
                   = exists env1 (cache_file_path folder code lvl rel)"
      and r: "read_file env2 (cache_file_path folder code lvl rel)
                   = read_file env1 (cache_file_path folder code lvl rel)"
      by (simp_all add: exists_def read_file_def)
    from ne show ?thesis
      unfolding loop_body_def same g io_bind_Inr v
      by (simp only: truthy.simps if_True option.sel Let_def e r)
  qed
qed

lemma for_loop_cong:
  assumes "\<forall>n\<in>set ns. db_search_fuzzy env1 n = db_search_fuzzy env2 n"
    and "\<forall>n\<in>set ns. case resolved_code env1 n of
               None \<Rightarrow> True
             | Some code \<Rightarrow>
                 fs_exists env1 (cache_file_path folder code lvl rel)
                   = fs_exists env2 (cache_file_path folder code lvl rel)
                 \<and> fs_read_file env1 (cache_file_path folder code lvl rel)
                   = fs_read_file env2 (cache_file_path folder code lvl rel)"
  shows "for_loop env1 lvl rel folder d ns = for_loop env2 lvl rel folder d ns"
  using assms
proof (induction ns arbitrary: d)
  case Nil
  show ?case by simp
next
  case (Cons n ns)
  have "loop_body env1 lvl rel folder d n = loop_body env2 lvl rel folder d n"
    using Cons.prems by (intro loop_body_cong) simp_all
  moreover have "for_loop env1 lvl rel folder d' ns = for_loop env2 lvl rel folder d' ns" for d'
    using Cons.prems by (intro Cons.IH) simp_all
  ultimately show ?case by simp
qed

text \<open>
  C8. Two runs of the loader on the same arguments give the same result, catalog and
  trace alike, when the environments of the two runs agree on what the run consults: the
  answer of the fuzzy search for each name, and the existence check and the content of
  the cache file of each code that a name resolves to. What else differs between the two
  environments has no influence.
\<close>

theorem load_same_on_unchanged_environment:
  assumes "\<forall>n\<in>set names. db_search_fuzzy env1 n = db_search_fuzzy env2 n"
    and "\<forall>n\<in>set names. case resolved_code env1 n of
               None \<Rightarrow> True
             | Some code \<Rightarrow>
                 fs_exists env1 (cache_file_path (Path base) code lvl rel)
                   = fs_exists env2 (cache_file_path (Path base) code lvl rel)
                 \<and> fs_read_file env1 (cache_file_path (Path base) code lvl rel)
                   = fs_read_file env2 (cache_file_path (Path base) code lvl rel)"
  shows "load_country_boundaries_to_dict env1 names lvl rel base
           = load_country_boundaries_to_dict env2 names lvl rel base"
proof -
  have "for_loop env1 lvl rel (Path base) [] names = for_loop env2 lvl rel (Path base) [] names"
    using assms by (rule for_loop_cong)
  then show ?thesis by (simp add: load_country_boundaries_to_dict_def)
qed

theorem load_same_on_unchanged_environment_witness:
  "load_country_boundaries_to_dict demo_env demo_names 0 ''gbOpen'' ''out''
     = load_country_boundaries_to_dict demo_env_later demo_names 0 ''gbOpen'' ''out''
   \<and> fs_exists demo_env (Path ''out/MEX_ADM1_gbOpen.geojson'')
       \<noteq> fs_exists demo_env_later (Path ''out/MEX_ADM1_gbOpen.geojson'')"
proof -
  have 1: "\<forall>n\<in>set demo_names. db_search_fuzzy demo_env n = db_search_fuzzy demo_env_later n"
    by code_simp
  have 2: "\<forall>n\<in>set demo_names. case resolved_code demo_env n of
               None \<Rightarrow> True
             | Some code \<Rightarrow>
                 fs_exists demo_env (cache_file_path (Path ''out'') code 0 ''gbOpen'')
                   = fs_exists demo_env_later (cache_file_path (Path ''out'') code 0 ''gbOpen'')
                 \<and> fs_read_file demo_env (cache_file_path (Path ''out'') code 0 ''gbOpen'')
                   = fs_read_file demo_env_later (cache_file_path (Path ''out'') code 0 ''gbOpen'')"
    by code_simp
  have 3: "fs_exists demo_env (Path ''out/MEX_ADM1_gbOpen.geojson'')
       \<noteq> fs_exists demo_env_later (Path ''out/MEX_ADM1_gbOpen.geojson'')"
    by code_simp
  from load_same_on_unchanged_environment [OF 1 2] 3 show ?thesis by simp
qed

lemma filter_key_distinct:
  "distinct (map fst xs) \<Longrightarrow> map_of xs k = Some v \<Longrightarrow> filter (\<lambda>kv. fst kv = k) xs = [(k, v)]"
proof (induction xs)
  case Nil
  then show ?case by simp
next
  case (Cons x xs)
  show ?case
  proof (cases "fst x = k")
    case True
    with Cons.prems have "x = (k, v)" by (cases x) simp
    moreover have "filter (\<lambda>kv. fst kv = k) xs = []"
    proof -
      have "k \<notin> fst ` set xs" using True Cons.prems(1) by auto
      then have "\<forall>kv\<in>set xs. fst kv \<noteq> k" by (metis imageI)
      then show ?thesis by (simp add: filter_empty_conv)
    qed
    ultimately show ?thesis by simp
  next
    case False
    with Cons show ?thesis by (cases x) simp
  qed
qed

lemma count_in_concat:
  assumes "1 \<le> length (filter P (f n))"
  shows "count_list ns n \<le> length (filter P (concat (map f ns)))"
  using assms by (induction ns) auto

lemma filter_read_library_calls:
  "filter (\<lambda>e. e = ReadFile p) (library_calls tr) = filter (\<lambda>e. e = ReadFile p) tr"
  unfolding library_calls_def filter_filter
  by (rule filter_cong) auto

text \<open>
  C9. When a name occurs more than once in the input and passes the three gates, every
  catalog that the loader returns has exactly one entry for it, with the frame that the
  reader returns for its cache file, and the file has been read at least once for each
  occurrence of the name; the loader returns a catalog when no existence check of the
  run raises. The loop stores that frame under the name whatever the dictionary held
  before, so a later occurrence replaces what an earlier one stored.
\<close>

theorem duplicate_name_single_entry:
  assumes "1 < count_list names n"
    and "resolved_code env n = Some code"
    and "fs_exists env (cache_file_path (Path base) code lvl rel) = Inr True"
    and "fs_read_file env (cache_file_path (Path base) code lvl rel) = Inr gdf"
  shows "((\<forall>m\<in>set names. check_answers env lvl rel (Path base) m) \<longrightarrow>
            (\<exists>tr cat. load_country_boundaries_to_dict env names lvl rel base = (tr, Inr cat)))
       \<and> (\<forall>tr cat. load_country_boundaries_to_dict env names lvl rel base = (tr, Inr cat) \<longrightarrow>
             filter (\<lambda>kv. fst kv = n) cat = [(n, gdf)]
             \<and> count_list names n
                 \<le> length (filter (\<lambda>e. e = ReadFile (cache_file_path (Path base) code lvl rel)) tr))
       \<and> (\<forall>d tr' d'. for_loop env lvl rel (Path base) d names = (tr', Inr d') \<longrightarrow>
             map_of d' n = Some gdf)"
proof -
  let ?p = "cache_file_path (Path base) code lvl rel"
  let ?cat = "fold (put_loaded env lvl rel (Path base)) names []"
  let ?run = "load_country_boundaries_to_dict env names lvl rel base"
  have loaded: "loaded_record env lvl rel (Path base) n = Some gdf"
    using assms(2-4) by (simp add: loaded_record_def)
  have "count_list names n \<noteq> 0" using assms(1) by simp
  then have mem: "n \<in> set names" by (simp add: count_list_0_iff)
  have returns: "\<exists>tr cat. ?run = (tr, Inr cat)"
    if "\<forall>m\<in>set names. check_answers env lvl rel (Path base) m"
  proof -
    from that have "snd ?run = Inr ?cat" by (rule load_result)
    then have "?run = (fst ?run, Inr ?cat)" by (metis prod.collapse)
    then show ?thesis by blast
  qed
  have result: "filter (\<lambda>kv. fst kv = n) cat = [(n, gdf)]
             \<and> count_list names n \<le> length (filter (\<lambda>e. e = ReadFile ?p) tr)"
    if run: "?run = (tr, Inr cat)" for tr cat
  proof -
    from run have "snd ?run = Inr cat" by simp
    then have all: "\<forall>m\<in>set names. check_answers env lvl rel (Path base) m"
      using load_returns_iff [of env names lvl rel base] by blast
    have cat: "cat = ?cat" using load_result [OF all] run by simp
    have "map_of ?cat n = Some gdf"
      using mem loaded by (simp add: fold_put_loaded_map_of)
    moreover have "distinct (map fst ?cat)" by (simp add: fold_put_loaded_distinct)
    ultimately have one: "filter (\<lambda>kv. fst kv = n) ?cat = [(n, gdf)]"
      by (intro filter_key_distinct)
    have "1 \<le> length (filter (\<lambda>e. e = ReadFile ?p) (item_calls env lvl rel (Path base) n))"
      using assms(2,3) by (simp add: item_calls_def)
    then have "count_list names n
        \<le> length (filter (\<lambda>e. e = ReadFile ?p) (concat (map (item_calls env lvl rel (Path base)) names)))"
      by (rule count_in_concat)
    then have "count_list names n \<le> length (filter (\<lambda>e. e = ReadFile ?p) (fst ?run))"
      by (simp only: load_calls [OF all, symmetric] filter_read_library_calls)
    with run one cat show ?thesis by simp
  qed
  have over: "map_of d' n = Some gdf"
    if loop: "for_loop env lvl rel (Path base) d names = (tr', Inr d')" for d tr' d'
  proof -
    from loop have "snd (for_loop env lvl rel (Path base) d names) = Inr d'" by simp
    then have all: "\<forall>m\<in>set names. check_answers env lvl rel (Path base) m"
      using for_loop_returns_iff [of env lvl rel "Path base" d names] by blast
    have "d' = fold (put_loaded env lvl rel (Path base)) names d"
      using for_loop_result [OF all, of d] loop by simp
    then show ?thesis using mem loaded by (simp add: fold_put_loaded_map_of)
  qed
  from returns result over show ?thesis by blast
qed

theorem duplicate_name_single_entry_witness:
  "\<exists>tr cat. load_country_boundaries_to_dict demo_env demo_names 0 ''gbOpen'' ''out'' = (tr, Inr cat)
     \<and> filter (\<lambda>kv. fst kv = ''Canada'') cat = [(''Canada'', GeoDataFrame [''feature''])]
     \<and> 2 \<le> length (filter (\<lambda>e. e = ReadFile (Path ''out/CAN_ADM0_gbOpen.geojson'')) tr)"
proof -
  have p: "cache_file_path (Path ''out'') ''CAN'' 0 ''gbOpen'' = Path ''out/CAN_ADM0_gbOpen.geojson''"
    by code_simp
  have 0: "\<forall>m\<in>set demo_names. check_answers demo_env 0 ''gbOpen'' (Path ''out'') m" by code_simp
  have 1: "1 < count_list demo_names ''Canada''" by code_simp
  have c: "count_list demo_names ''Canada'' = 2" by code_simp
  have 2: "resolved_code demo_env ''Canada'' = Some ''CAN''" by code_simp
  have 3: "fs_exists demo_env (cache_file_path (Path ''out'') ''CAN'' 0 ''gbOpen'') = Inr True"
    by code_simp
  have 4: "fs_read_file demo_env (cache_file_path (Path ''out'') ''CAN'' 0 ''gbOpen'')
             = Inr (GeoDataFrame [''feature''])"
    by code_simp
  from duplicate_name_single_entry [OF 1 2 3 4] 0 show ?thesis
    unfolding p c by blast
qed

subsection \<open>The two lookup functions\<close>

lemma get_country_name_result:
  "py_str v = Inr s \<Longrightarrow>
   get_country_name_from_iso_code env v =
     (case db_get env Alpha_2 (py_upper env (py_strip env s)) of
        Inl e \<Rightarrow>
          ([CountriesGet Alpha_2 (py_upper env (py_strip env s)),
            Stdout (''An error occurred while looking up ISO code ''
                    @ quoted (py_upper env (py_strip env s)) @ '': '' @ exn_str e)], Inr None)
      | Inr (Some c) \<Rightarrow> ([CountriesGet Alpha_2 (py_upper env (py_strip env s))], Inr (Some (name c)))
      | Inr None \<Rightarrow>
          (case db_get env Alpha_3 (py_upper env (py_strip env s)) of
             Inl e \<Rightarrow>
               ([CountriesGet Alpha_2 (py_upper env (py_strip env s)),
                 CountriesGet Alpha_3 (py_upper env (py_strip env s)),
                 Stdout (''An error occurred while looking up ISO code ''
                         @ quoted (py_upper env (py_strip env s)) @ '': '' @ exn_str e)], Inr None)
           | Inr (Some c) \<Rightarrow>
               ([CountriesGet Alpha_2 (py_upper env (py_strip env s)),
                 CountriesGet Alpha_3 (py_upper env (py_strip env s))], Inr (Some (name c)))
           | Inr None \<Rightarrow>
               ([CountriesGet Alpha_2 (py_upper env (py_strip env s)),
                 CountriesGet Alpha_3 (py_upper env (py_strip env s))], Inr None)))"
  by (simp add: get_country_name_from_iso_code_def Let_def countries_get_def io_try_def io_bind_def
        io_return_def print_def split: sum.split option.split)

lemma get_country_name_str_raises:
  "py_str v = Inl e \<Longrightarrow> get_country_name_from_iso_code env v = ([], Inl e)"
  by (simp add: get_country_name_from_iso_code_def io_bind_def)

text \<open>
  C2, as the code has it. The function returns and never raises. With a match it returns
  the three-letter code of the first match and logs nothing. Without a match (an empty
  answer, or \<^verbatim>\<open>LookupError\<close>) it returns \<^verbatim>\<open>None\<close> and logs nothing. Only when
  the search raises another exception does it log an error through the logger, and
  return \<^verbatim>\<open>None\<close>.
\<close>

theorem get_iso_code_outcome:
  "(\<exists>tr r. get_iso_code_from_country_name env n = (tr, Inr r))
   \<and> (\<forall>c cs. db_search_fuzzy env n = Inr (c # cs) \<longrightarrow>
         get_iso_code_from_country_name env n = ([SearchFuzzy n], Inr (Some (alpha_3 c))))
   \<and> (db_search_fuzzy env n = Inr [] \<longrightarrow>
         get_iso_code_from_country_name env n = ([SearchFuzzy n], Inr None))
   \<and> (\<forall>m. db_search_fuzzy env n = Inl (LookupError m) \<longrightarrow>
         get_iso_code_from_country_name env n = ([SearchFuzzy n], Inr None))
   \<and> (\<forall>m. db_search_fuzzy env n = Inl (OtherException m) \<longrightarrow>
         get_iso_code_from_country_name env n =
           ([SearchFuzzy n,
             LoggerCall ERROR (''An error occurred while looking up ISO code for ''
                               @ quoted n @ '': '' @ m),
             Stdout (''ERROR: '' @ ''An error occurred while looking up ISO code for ''
                                   @ quoted n @ '': '' @ m)],
            Inr None))"
  using get_iso_code_returns [of env n]
  by (simp add: get_iso_code_result logger_error_def)

theorem get_iso_code_outcome_witness:
  "get_iso_code_from_country_name demo_env ''Canada'' = ([SearchFuzzy ''Canada''], Inr (Some ''CAN''))
   \<and> get_iso_code_from_country_name demo_env ''Boom'' =
        ([SearchFuzzy ''Boom'',
          LoggerCall ERROR (''An error occurred while looking up ISO code for ''
                            @ quoted ''Boom'' @ '': '' @ ''database is locked''),
          Stdout (''ERROR: '' @ ''An error occurred while looking up ISO code for ''
                                @ quoted ''Boom'' @ '': '' @ ''database is locked'')],
         Inr None)"
proof -
  have 1: "db_search_fuzzy demo_env ''Canada'' = Inr (canada # [mexico])" by code_simp
  have 2: "alpha_3 canada = ''CAN''" by code_simp
  have 3: "db_search_fuzzy demo_env ''Boom'' = Inl (OtherException ''database is locked'')"
    by code_simp
  from get_iso_code_outcome [of demo_env "''Canada''"] 1 2
  have a: "get_iso_code_from_country_name demo_env ''Canada'' = ([SearchFuzzy ''Canada''], Inr (Some ''CAN''))"
    by metis
  from get_iso_code_outcome [of demo_env "''Boom''"] 3
  have b: "get_iso_code_from_country_name demo_env ''Boom'' =
        ([SearchFuzzy ''Boom'',
          LoggerCall ERROR (''An error occurred while looking up ISO code for ''
                            @ quoted ''Boom'' @ '': '' @ ''database is locked''),
          Stdout (''ERROR: '' @ ''An error occurred while looking up ISO code for ''
                                @ quoted ''Boom'' @ '': '' @ ''database is locked'')],
         Inr None)"
    by metis
  from a b show ?thesis by (rule conjI)
qed

theorem get_iso_code_no_match_counterexample:
  "db_search_fuzzy demo_env ''Nowhereland'' = Inl (LookupError ''Nowhereland'')
   \<and> get_iso_code_from_country_name demo_env ''Nowhereland'' = ([SearchFuzzy ''Nowhereland''], Inr None)
   \<and> filter is_output (fst (get_iso_code_from_country_name demo_env ''Nowhereland'')) = []
   \<and> db_search_fuzzy demo_env ''Atlantis'' = Inr []
   \<and> get_iso_code_from_country_name demo_env ''Atlantis'' = ([SearchFuzzy ''Atlantis''], Inr None)
   \<and> filter is_output (fst (get_iso_code_from_country_name demo_env ''Atlantis'')) = []"
  by code_simp

text \<open>
  C5. The code looked up is the input string after \<^verbatim>\<open>strip()\<close> and then
  \<^verbatim>\<open>upper()\<close>. The two-letter lookup comes first: when it finds a country, its
  name is returned and the three-letter lookup is not made. When it finds none, the
  three-letter lookup is made, and the name of the country it finds is returned; when
  both find none, the result is \<^verbatim>\<open>None\<close>.
\<close>

theorem get_country_name_lookup_order:
  assumes "code = py_upper env (py_strip env s)"
  shows "(\<forall>c. db_get env Alpha_2 code = Inr (Some c) \<longrightarrow>
            get_country_name_from_iso_code env (PyStr s) =
              ([CountriesGet Alpha_2 code], Inr (Some (name c))))
       \<and> (\<forall>c. db_get env Alpha_2 code = Inr None \<and> db_get env Alpha_3 code = Inr (Some c) \<longrightarrow>
            get_country_name_from_iso_code env (PyStr s) =
              ([CountriesGet Alpha_2 code, CountriesGet Alpha_3 code], Inr (Some (name c))))
       \<and> (db_get env Alpha_2 code = Inr None \<and> db_get env Alpha_3 code = Inr None \<longrightarrow>
            get_country_name_from_iso_code env (PyStr s) =
              ([CountriesGet Alpha_2 code, CountriesGet Alpha_3 code], Inr None))"
  using assms by (simp add: get_country_name_result [of "PyStr s" s])

theorem get_country_name_lookup_order_witness:
  "py_upper demo_env (py_strip demo_env ''  ca '') = ''CA''
   \<and> get_country_name_from_iso_code demo_env (PyStr ''  ca '') =
       ([CountriesGet Alpha_2 ''CA''], Inr (Some ''Canada''))
   \<and> get_country_name_from_iso_code demo_env (PyStr ''can'') =
       ([CountriesGet Alpha_2 ''CAN'', CountriesGet Alpha_3 ''CAN''], Inr (Some ''Canada''))
   \<and> get_country_name_from_iso_code demo_env (PyStr ''zz'') =
       ([CountriesGet Alpha_2 ''ZZ'', CountriesGet Alpha_3 ''ZZ''], Inr None)"
proof -
  have n1: "''CA'' = py_upper demo_env (py_strip demo_env ''  ca '')" by code_simp
  have n2: "''CAN'' = py_upper demo_env (py_strip demo_env ''can'')" by code_simp
  have n3: "''ZZ'' = py_upper demo_env (py_strip demo_env ''zz'')" by code_simp
  have a: "db_get demo_env Alpha_2 ''CA'' = Inr (Some canada)" by code_simp
  have b: "db_get demo_env Alpha_2 ''CAN'' = Inr None \<and> db_get demo_env Alpha_3 ''CAN'' = Inr (Some canada)"
    by code_simp
  have c: "db_get demo_env Alpha_2 ''ZZ'' = Inr None \<and> db_get demo_env Alpha_3 ''ZZ'' = Inr None"
    by code_simp
  have d: "name canada = ''Canada''" by code_simp
  from get_country_name_lookup_order [OF n1] a d
  have 1: "get_country_name_from_iso_code demo_env (PyStr ''  ca '') =
       ([CountriesGet Alpha_2 ''CA''], Inr (Some ''Canada''))"
    by metis
  from get_country_name_lookup_order [OF n2] b d
  have 2: "get_country_name_from_iso_code demo_env (PyStr ''can'') =
       ([CountriesGet Alpha_2 ''CAN'', CountriesGet Alpha_3 ''CAN''], Inr (Some ''Canada''))"
    by metis
  from get_country_name_lookup_order [OF n3] c
  have 3: "get_country_name_from_iso_code demo_env (PyStr ''zz'') =
       ([CountriesGet Alpha_2 ''ZZ'', CountriesGet Alpha_3 ''ZZ''], Inr None)"
    by metis
  from n1 [symmetric] 1 2 3 show ?thesis by (intro conjI)
qed

text \<open>
  C6. When a lookup raises, by the two-letter code or, after that one found nothing, by
  the three-letter code, the function returns \<^verbatim>\<open>None\<close> and writes one line to
  standard output with \<^verbatim>\<open>print\<close>. In no case does it call the logger.
\<close>

theorem get_country_name_lookup_error:
  "(\<forall>s code e. py_str v = Inr s \<and> code = py_upper env (py_strip env s)
        \<and> db_get env Alpha_2 code = Inl e \<longrightarrow>
            get_country_name_from_iso_code env v =
              ([CountriesGet Alpha_2 code,
                Stdout (''An error occurred while looking up ISO code '' @ quoted code
                        @ '': '' @ exn_str e)], Inr None))
   \<and> (\<forall>s code e. py_str v = Inr s \<and> code = py_upper env (py_strip env s)
        \<and> db_get env Alpha_2 code = Inr None \<and> db_get env Alpha_3 code = Inl e \<longrightarrow>
            get_country_name_from_iso_code env v =
              ([CountriesGet Alpha_2 code, CountriesGet Alpha_3 code,
                Stdout (''An error occurred while looking up ISO code '' @ quoted code
                        @ '': '' @ exn_str e)], Inr None))
   \<and> (\<forall>l m. LoggerCall l m \<notin> set (fst (get_country_name_from_iso_code env v)))"
proof (cases "py_str v")
  case (Inl e)
  then show ?thesis by (simp add: get_country_name_str_raises)
next
  case (Inr s)
  then show ?thesis
    by (simp add: get_country_name_result [OF Inr] split: sum.split option.split)
qed

theorem get_country_name_lookup_error_witness:
  "get_country_name_from_iso_code demo_env (PyStr ''boom'') =
       ([CountriesGet Alpha_2 ''BOOM'',
         Stdout (''An error occurred while looking up ISO code '' @ quoted ''BOOM''
                 @ '': '' @ ''database is locked'')], Inr None)
   \<and> get_country_name_from_iso_code demo_env (PyStr ''key'') =
       ([CountriesGet Alpha_2 ''KEY'', CountriesGet Alpha_3 ''KEY'',
         Stdout (''An error occurred while looking up ISO code '' @ quoted ''KEY''
                 @ '': '' @ ''KEY'')], Inr None)"
proof -
  have s1: "py_str (PyStr ''boom'') = Inr ''boom''" and s2: "py_str (PyStr ''key'') = Inr ''key''"
    by simp_all
  have n1: "''BOOM'' = py_upper demo_env (py_strip demo_env ''boom'')" by code_simp
  have n2: "''KEY'' = py_upper demo_env (py_strip demo_env ''key'')" by code_simp
  have a: "db_get demo_env Alpha_2 ''BOOM'' = Inl (OtherException ''database is locked'')"
    by code_simp
  have b: "db_get demo_env Alpha_2 ''KEY'' = Inr None" "db_get demo_env Alpha_3 ''KEY'' = Inl (LookupError ''KEY'')"
    by code_simp+
  have s: "exn_str (OtherException ''database is locked'') = ''database is locked''"
    "exn_str (LookupError ''KEY'') = ''KEY''"
    by simp_all
  from get_country_name_lookup_error [of "PyStr ''boom''" demo_env] s1 n1 a
  have "get_country_name_from_iso_code demo_env (PyStr ''boom'') =
       ([CountriesGet Alpha_2 ''BOOM'',
         Stdout (''An error occurred while looking up ISO code '' @ quoted ''BOOM''
                 @ '': '' @ exn_str (OtherException ''database is locked''))], Inr None)"
    by blast
  then have 1: "get_country_name_from_iso_code demo_env (PyStr ''boom'') =
       ([CountriesGet Alpha_2 ''BOOM'',
         Stdout (''An error occurred while looking up ISO code '' @ quoted ''BOOM''
                 @ '': '' @ ''database is locked'')], Inr None)"
    unfolding s .
  from get_country_name_lookup_error [of "PyStr ''key''" demo_env] s2 n2 b
  have "get_country_name_from_iso_code demo_env (PyStr ''key'') =
       ([CountriesGet Alpha_2 ''KEY'', CountriesGet Alpha_3 ''KEY'',
         Stdout (''An error occurred while looking up ISO code '' @ quoted ''KEY''
                 @ '': '' @ exn_str (LookupError ''KEY''))], Inr None)"
    by blast
  then have 2: "get_country_name_from_iso_code demo_env (PyStr ''key'') =
       ([CountriesGet Alpha_2 ''KEY'', CountriesGet Alpha_3 ''KEY'',
         Stdout (''An error occurred while looking up ISO code '' @ quoted ''KEY''
                 @ '': '' @ ''KEY'')], Inr None)"
    unfolding s .
  from 1 2 show ?thesis by (rule conjI)
qed

text \<open>
  C10, as the code has it. The argument is coerced with \<^verbatim>\<open>str()\<close>. For every
  value whose \<^verbatim>\<open>str()\<close> returns, the function returns and does not raise, and its
  result is the one for the string \<^verbatim>\<open>str(v)\<close>: the first lookup is made with
  \<^verbatim>\<open>str(v)\<close> trimmed and in upper case. \<^verbatim>\<open>str()\<close> returns for
  \<^verbatim>\<open>None\<close>, for a boolean, for a string and for an integer within the digit limit
  of the interpreter.
\<close>

theorem get_country_name_total:
  "(\<forall>s. py_str v = Inr s \<longrightarrow>
      (\<exists>tr r. get_country_name_from_iso_code env v = (tr, Inr r)
         \<and> take 1 tr = [CountriesGet Alpha_2 (py_upper env (py_strip env s))])
      \<and> get_country_name_from_iso_code env v = get_country_name_from_iso_code env (PyStr s))
   \<and> py_str PyNone = Inr ''None''
   \<and> py_str (PyBool b) = Inr (if b then ''True'' else ''False'')
   \<and> py_str (PyStr t) = Inr t
   \<and> (length (str_nat (nat \<bar>i\<bar>)) \<le> int_max_str_digits \<longrightarrow> py_str (PyInt i) = Inr (str_int i))"
proof -
  have "(\<exists>tr r. get_country_name_from_iso_code env v = (tr, Inr r)
         \<and> take 1 tr = [CountriesGet Alpha_2 (py_upper env (py_strip env s))])
      \<and> get_country_name_from_iso_code env v = get_country_name_from_iso_code env (PyStr s)"
    if s: "py_str v = Inr s" for s
  proof -
    have t: "py_str (PyStr s) = Inr s" by simp
    show ?thesis
      unfolding get_country_name_result [OF s] get_country_name_result [OF t]
      by (simp split: sum.split option.split)
  qed
  then have main: "\<forall>s. py_str v = Inr s \<longrightarrow>
      (\<exists>tr r. get_country_name_from_iso_code env v = (tr, Inr r)
         \<and> take 1 tr = [CountriesGet Alpha_2 (py_upper env (py_strip env s))])
      \<and> get_country_name_from_iso_code env v = get_country_name_from_iso_code env (PyStr s)"
    by blast
  have scalars: "py_str PyNone = Inr ''None''"
    "py_str (PyBool b) = Inr (if b then ''True'' else ''False'')"
    "py_str (PyStr t) = Inr t"
    "length (str_nat (nat \<bar>i\<bar>)) \<le> int_max_str_digits \<longrightarrow> py_str (PyInt i) = Inr (str_int i)"
    by simp_all
  from main scalars show ?thesis by (intro conjI)
qed

theorem get_country_name_total_witness:
  "get_country_name_from_iso_code demo_env PyNone =
     ([CountriesGet Alpha_2 ''NONE'', CountriesGet Alpha_3 ''NONE''], Inr None)
   \<and> get_country_name_from_iso_code demo_env (PyInt (- 124)) =
     ([CountriesGet Alpha_2 ''-124'', CountriesGet Alpha_3 ''-124''], Inr None)"
proof -
  have a: "get_country_name_from_iso_code demo_env (PyStr ''None'') =
     ([CountriesGet Alpha_2 ''NONE'', CountriesGet Alpha_3 ''NONE''], Inr None)"
    by code_simp
  have b: "get_country_name_from_iso_code demo_env (PyStr ''-124'') =
     ([CountriesGet Alpha_2 ''-124'', CountriesGet Alpha_3 ''-124''], Inr None)"
    by code_simp
  have l: "length (str_nat (nat \<bar>- 124\<bar>)) \<le> int_max_str_digits" by code_simp
  have i: "str_int (- 124) = ''-124''" by code_simp
  from get_country_name_total [of PyNone demo_env] a
  have 1: "get_country_name_from_iso_code demo_env PyNone =
     ([CountriesGet Alpha_2 ''NONE'', CountriesGet Alpha_3 ''NONE''], Inr None)"
    by simp
  from get_country_name_total [of "PyInt (- 124)" demo_env _ _ "- 124"] l i
  have "py_str (PyInt (- 124)) = Inr ''-124''" by simp
  with get_country_name_total [of "PyInt (- 124)" demo_env] b
  have 2: "get_country_name_from_iso_code demo_env (PyInt (- 124)) =
     ([CountriesGet Alpha_2 ''-124'', CountriesGet Alpha_3 ''-124''], Inr None)"
    by simp
  from 1 2 show ?thesis by (rule conjI)
qed

theorem get_country_name_str_raises_counterexample:
  "get_country_name_from_iso_code demo_env (PyObject (Inl (OtherException ''__str__ failed'')))
     = ([], Inl (OtherException ''__str__ failed''))"
  by code_simp

end
